theory Spec2Isabelle
  imports Main
begin

section \<open>Python strings\<close>

text \<open>
  A Python \<^verbatim>\<open>str\<close> is a sequence of Unicode code points and \<^verbatim>\<open>len\<close> counts code
  points, so a string is a list of code points. \<open>py\<close> turns an ASCII literal into
  such a list.
\<close>

type_synonym codepoint = nat
type_synonym str = "codepoint list"

definition py :: "string \<Rightarrow> str" where
  "py s = map of_char s"

definition newline :: codepoint where
  "newline = 10"

definition ends_with_newline :: "str \<Rightarrow> bool" where
  "ends_with_newline s = (s \<noteq> [] \<and> last s = newline)"

section \<open>utils.py\<close>

subsection \<open>The fragment of \<^verbatim>\<open>re\<close> used by \<^verbatim>\<open>validate_email\<close>\<close>

text \<open>
  The pattern is a sequence of pieces: a character class repeated at least \<open>n\<close> times
  (\<^verbatim>\<open>+\<close> is \<open>n = 1\<close>, \<^verbatim>\<open>{2,}\<close> is \<open>n = 2\<close>), a literal character, and the end anchor
  \<^verbatim>\<open>$\<close>. \<^verbatim>\<open>re.match\<close> matches at the start of the string (where the leading \<^verbatim>\<open>^\<close>
  holds) and needs no more than a prefix. A repetition is greedy and backtracks: it
  takes the longest run of class characters first and gives characters back one by
  one. Without \<^verbatim>\<open>re.MULTILINE\<close>, \<^verbatim>\<open>$\<close> matches at the end of the string and just before a
  newline that is the last character of the string.
\<close>

datatype piece = AtLeast nat "codepoint \<Rightarrow> bool" | Lit codepoint | Dollar

fun re_match :: "piece list \<Rightarrow> str \<Rightarrow> bool" where
  "re_match [] s = True"
| "re_match (Lit c # ps) s = (case s of [] \<Rightarrow> False | x # xs \<Rightarrow> x = c \<and> re_match ps xs)"
| "re_match (AtLeast n cls # ps) s =
     list_ex (\<lambda>k. re_match ps (drop k s)) (rev [n ..< Suc (length (takeWhile cls s))])"
| "re_match (Dollar # ps) s = ((s = [] \<or> s = [newline]) \<and> re_match ps s)"

definition lower :: "codepoint \<Rightarrow> bool" where
  "lower c = (97 \<le> c \<and> c \<le> 122)"

definition upper :: "codepoint \<Rightarrow> bool" where
  "upper c = (65 \<le> c \<and> c \<le> 90)"

definition digit :: "codepoint \<Rightarrow> bool" where
  "digit c = (48 \<le> c \<and> c \<le> 57)"

text \<open>\<^verbatim>\<open>[a-zA-Z0-9._%+-]\<close>, \<^verbatim>\<open>[a-zA-Z0-9.-]\<close> and \<^verbatim>\<open>[a-zA-Z]\<close>.\<close>

definition local_class :: "codepoint \<Rightarrow> bool" where
  "local_class c = (lower c \<or> upper c \<or> digit c \<or> c \<in> set (py ''._%+-''))"

definition domain_class :: "codepoint \<Rightarrow> bool" where
  "domain_class c = (lower c \<or> upper c \<or> digit c \<or> c \<in> set (py ''.-''))"

definition tld_class :: "codepoint \<Rightarrow> bool" where
  "tld_class c = (lower c \<or> upper c)"

text \<open>\<^verbatim>\<open>r'^[a-zA-Z0-9._%+-]+@[a-zA-Z0-9.-]+\.[a-zA-Z]{2,}$'\<close>; 64 is \<^verbatim>\<open>@\<close>, 46 is the dot.\<close>

definition pattern :: "piece list" where
  "pattern =
     [AtLeast 1 local_class, Lit 64, AtLeast 1 domain_class, Lit 46, AtLeast 2 tld_class,
      Dollar]"

definition validate_email :: "str \<Rightarrow> bool" where
  "validate_email email = re_match pattern email"

definition validate_password :: "str \<Rightarrow> bool \<times> str option" where
  "validate_password password =
     (if length password < 6
      then (False, Some (py ''Password must be at least 6 characters long''))
      else (True, None))"

subsection \<open>The shape of an address, in words\<close>

text \<open>
  A non-empty local part over \<^verbatim>\<open>[a-zA-Z0-9._%+-]\<close>, an \<^verbatim>\<open>@\<close>, a non-empty domain over
  \<^verbatim>\<open>[a-zA-Z0-9.-]\<close>, a dot, and a last label of at least two ASCII letters. This
  predicate is not taken from the code: it is what \<open>validate_email\<close> is compared with.
\<close>

definition email_shape :: "str \<Rightarrow> bool" where
  "email_shape e =
     (\<exists>l d t. e = l @ [64] @ d @ [46] @ t \<and>
        l \<noteq> [] \<and> list_all local_class l \<and>
        d \<noteq> [] \<and> list_all domain_class d \<and>
        2 \<le> length t \<and> list_all tld_class t)"

section \<open>The document store\<close>

text \<open>
  The store is an external collaborator (MongoDB through Motor). The handlers see it
  through five operations on collections; each is a round trip that may raise and that
  leaves the store in a new state, in which the writes of concurrent requests may have
  landed. The operations are parameters: a \<open>'s store\<close> over a store state \<open>'s\<close>.
\<close>

datatype exn =
    DuplicateKeyError str
  | OperationFailure str
  | ServerSelectionTimeoutError str


record new_user =
  email :: str
  username :: str
  hashed_password :: str
  created_at :: int

record user_doc = new_user +
  doc_id :: str

record subject_doc =
  name :: str
  code :: str
  description :: str
  icon :: str

datatype collection = Users | Subjects | Materials

text \<open>The two queries on users: by email, and \<^verbatim>\<open>{"$or": [{"email": e}, {"username": u}]}\<close>.\<close>

datatype user_filter = ByEmail str | EmailOrUsername str str

record 's store =
  find_one :: "user_filter \<Rightarrow> 's \<Rightarrow> (exn + user_doc option) \<times> 's"
  insert_one :: "new_user \<Rightarrow> 's \<Rightarrow> (exn + str) \<times> 's"
  create_index :: "collection \<Rightarrow> string \<Rightarrow> bool \<Rightarrow> 's \<Rightarrow> (exn + unit) \<times> 's"
  count_documents :: "collection \<Rightarrow> 's \<Rightarrow> (exn + nat) \<times> 's"
  insert_many :: "subject_doc list \<Rightarrow> 's \<Rightarrow> (exn + unit) \<times> 's"

text \<open>Sequencing of store operations: the first exception ends the sequence.\<close>

definition and_then ::
  "('s \<Rightarrow> (exn + 'a) \<times> 's) \<Rightarrow> ('a \<Rightarrow> 's \<Rightarrow> (exn + 'b) \<times> 's) \<Rightarrow> 's \<Rightarrow> (exn + 'b) \<times> 's" where
  "and_then m f s = (case m s of (Inl e, s') \<Rightarrow> (Inl e, s') | (Inr x, s') \<Rightarrow> f x s')"

definition done_with :: "'a \<Rightarrow> 's \<Rightarrow> (exn + 'a) \<times> 's" where
  "done_with x s = (Inr x, s)"

section \<open>database.py\<close>









section \<open>auth.py\<close>

text \<open>
  \<^verbatim>\<open>auth.py\<close> is imported by \<^verbatim>\<open>main.py\<close> and is not among the sources. Its password hashing
  and the signing function of its tokens are library code: they are parameters, fields
  of the configuration below. Time is in seconds.
\<close>

record claims =
  subject :: str
  expiry :: int

record token_service =
  SECRET_KEY :: str
  sign :: "str \<Rightarrow> claims \<Rightarrow> str"

record env = token_service +
  get_password_hash :: "str \<Rightarrow> str"
  verify_password :: "str \<Rightarrow> str \<Rightarrow> bool"
  ACCESS_TOKEN_EXPIRE_MINUTES :: int
  utcnow :: int
  isoformat :: "int \<Rightarrow> str"

datatype AuthError = Malformed | BadSignature | Expired

subsection \<open>The encoding of a token\<close>

text \<open>
  Modelled from the spec: the encoding of a token "must be URL-safe and self-describing
  (claims + expiry + signature)". A token is written as three fields separated by dots:
  the subject, the expiry and the signature. A string is written as its code points,
  each in decimal after an underscore; the expiry is written in decimal, with a minus
  sign when it is negative. \<open>decimal\<close> writes a natural number in decimal digits.
\<close>

function decimal :: "nat \<Rightarrow> str" where
  "decimal n = (if n < 10 then [48 + n] else decimal (n div 10) @ [48 + n mod 10])"
  by pat_completeness auto
termination
  by (relation "measure id") auto

declare decimal.simps [simp del]

text \<open>Modelled from the spec: reading a number back from its decimal digits.\<close>

definition undecimal :: "str \<Rightarrow> nat" where
  "undecimal ds = foldl (\<lambda>a c. 10 * a + (c - 48)) 0 ds"

text \<open>
  Modelled from the spec: a string field of a token, each code point in decimal after
  an underscore (95).
\<close>

definition enc_str :: "str \<Rightarrow> str" where
  "enc_str xs = concat (map (\<lambda>n. 95 # decimal n) xs)"

text \<open>
  Modelled from the spec: reading a string field back; \<open>None\<close> when the field is not a
  sequence of underscores each followed by at least one digit.
\<close>

function dec_str :: "str \<Rightarrow> str option" where
  "dec_str [] = Some []"
| "dec_str (c # cs) =
     (if c = 95 \<and> takeWhile digit cs \<noteq> []
      then (case dec_str (dropWhile digit cs) of
              None \<Rightarrow> None
            | Some ns \<Rightarrow> Some (undecimal (takeWhile digit cs) # ns))
      else None)"
  by pat_completeness auto
termination
  by (relation "measure length") (auto simp: less_Suc_eq_le length_dropWhile_le)

text \<open>Modelled from the spec: the expiry field of a token; 45 is the minus sign.\<close>

definition enc_int :: "int \<Rightarrow> str" where
  "enc_int e = (if e < 0 then 45 # decimal (nat (- e)) else decimal (nat e))"

text \<open>
  Modelled from the spec: reading the expiry field back; \<open>None\<close> when the field is not
  an optional minus sign followed by at least one digit.
\<close>

definition dec_int :: "str \<Rightarrow> int option" where
  "dec_int s =
     (case s of
        [] \<Rightarrow> None
      | c # cs \<Rightarrow>
          if c = 45
          then (if cs \<noteq> [] \<and> list_all digit cs then Some (- int (undecimal cs)) else None)
          else if list_all digit (c # cs) then Some (int (undecimal (c # cs))) else None)"

text \<open>
  Modelled from the spec: the encoded token, "claims + expiry + signature"; 46 is the
  dot.
\<close>

definition encode_token :: "claims \<times> str \<Rightarrow> str" where
  "encode_token p =
     (case p of (c, sg) \<Rightarrow>
        enc_str (subject c) @ [46] @ enc_int (expiry c) @ [46] @ enc_str sg)"

text \<open>
  Modelled from the spec: decoding a token. The string is cut at its first two dots and
  each field is read back; a token "cannot be decoded" when a dot or a field is
  missing or ill-formed.
\<close>

definition decode_token :: "str \<Rightarrow> (claims \<times> str) option" where
  "decode_token t =
     (let a = takeWhile (\<lambda>c. c \<noteq> 46) t; r = dropWhile (\<lambda>c. c \<noteq> 46) t
      in case r of
           [] \<Rightarrow> None
         | _ # r' \<Rightarrow>
             (let b = takeWhile (\<lambda>c. c \<noteq> 46) r'; q = dropWhile (\<lambda>c. c \<noteq> 46) r'
              in case q of
                   [] \<Rightarrow> None
                 | _ # z \<Rightarrow>
                     (case (dec_str a, dec_int b, dec_str z) of
                        (Some s, Some e, Some sg) \<Rightarrow> Some (\<lparr>subject = s, expiry = e\<rparr>, sg)
                      | _ \<Rightarrow> None)))"

text \<open>
  Modelled from the spec: the characters of a "URL-safe" encoding that the tokens use:
  digits, the minus sign, the dot and the underscore.
\<close>

definition url_safe :: "codepoint \<Rightarrow> bool" where
  "url_safe c = (digit c \<or> c = 45 \<or> c = 46 \<or> c = 95)"

subsection \<open>The Token Service\<close>

text \<open>
  Modelled from the spec: the Token Service of \<^verbatim>\<open>auth.py\<close>, which is not among the
  sources. \<^verbatim>\<open>issue\<close> "produces a signed, encoded token embedding subject and an absolute
  expiry = now + ttl".
\<close>

definition issue :: "'a token_service_scheme \<Rightarrow> int \<Rightarrow> str \<Rightarrow> int \<Rightarrow> str" where
  "issue svc now s ttl =
     (let c = \<lparr>subject = s, expiry = now + ttl\<rparr>
      in encode_token (c, sign svc (SECRET_KEY svc) c))"

text \<open>
  Modelled from the spec: \<^verbatim>\<open>verify\<close> of the Token Service of \<^verbatim>\<open>auth.py\<close>. It "fails with
  AuthError::Malformed if the token cannot be decoded; fails with AuthError::BadSignature
  if the signature does not match; fails with AuthError::Expired if expiry < now. On
  success, returns the embedded claims." The token is "verified by recomputation", and
  it "is valid if and only if its signature verifies against the service's secret AND
  its expiry is in the future": a token whose expiry is now is expired, as the test
  with ttl = 0 asks.
\<close>

definition verify :: "'a token_service_scheme \<Rightarrow> int \<Rightarrow> str \<Rightarrow> AuthError + claims" where
  "verify svc now t =
     (case decode_token t of
        None \<Rightarrow> Inl Malformed
      | Some (c, sg) \<Rightarrow>
          if sg \<noteq> sign svc (SECRET_KEY svc) c then Inl BadSignature
          else if now < expiry c then Inr c
          else Inl Expired)"

text \<open>
  Modelled from the spec: \<^verbatim>\<open>create_access_token(data={"sub": s}, expires_delta=d)\<close> of
  \<^verbatim>\<open>auth.py\<close> is the Token Service's \<^verbatim>\<open>issue\<close> at the current time.
\<close>

definition create_access_token :: "env \<Rightarrow> str \<Rightarrow> int \<Rightarrow> str" where
  "create_access_token cfg sub expires_delta = issue cfg (utcnow cfg) sub expires_delta"

text \<open>
  Modelled from the spec: \<^verbatim>\<open>authenticate_user\<close> of \<^verbatim>\<open>auth.py\<close>, steps 1 and 2 of Login:
  "Look up user by email; if absent, fail", then "Verify password via Credential
  Hasher; same generic error on mismatch". A failure is the value \<open>None\<close>, which
  \<^verbatim>\<open>login\<close> tests with \<^verbatim>\<open>if not user\<close>.
\<close>

definition authenticate_user ::
  "env \<Rightarrow> 's store \<Rightarrow> str \<Rightarrow> str \<Rightarrow> 's \<Rightarrow> (exn + user_doc option) \<times> 's" where
  "authenticate_user cfg db e password =
     and_then (find_one db (ByEmail e)) (\<lambda>found.
       case found of
         None \<Rightarrow> done_with None
       | Some user \<Rightarrow>
           if verify_password cfg password (hashed_password user)
           then done_with (Some user) else done_with None)"

section \<open>main.py\<close>

text \<open>
  The request models. Their email field is a pydantic \<^verbatim>\<open>EmailStr\<close>, checked by that library
  before the handler runs; the handlers are modelled on every string.
\<close>

datatype UserSignup =
  UserSignup (signup_email: str) (signup_username: str) (signup_password: str)

datatype UserLogin = UserLogin (login_email: str) (login_password: str)

text \<open>\<^verbatim>\<open>UserResponse\<close>: id, email, username, created_at.\<close>

datatype UserResponse =
  UserResponse (resp_id: str) (resp_email: str) (resp_username: str) (resp_created_at: str)

datatype TokenResponse =
  TokenResponse (access_token: str) (token_type: str) (resp_user: UserResponse)

text \<open>
  What leaves a handler instead of a response: an \<^verbatim>\<open>HTTPException\<close> with its status
  code, detail and headers, or an exception that no handler code catches.
\<close>

datatype http_error =
    HTTPException nat "str option" "(str \<times> str) list"
  | Unhandled exn

definition timedelta_minutes :: "int \<Rightarrow> int" where
  "timedelta_minutes m = 60 * m"

definition signup ::
  "env \<Rightarrow> 's store \<Rightarrow> UserSignup \<Rightarrow> 's \<Rightarrow> (http_error + TokenResponse) \<times> 's" where
  "signup cfg db user_data s =
     (if \<not> validate_email (signup_email user_data)
      then (Inl (HTTPException 400 (Some (py ''Invalid email format'')) []), s)
      else (case validate_password (signup_password user_data) of
        (is_valid, error_msg) \<Rightarrow>
          if \<not> is_valid then (Inl (HTTPException 400 error_msg []), s)
          else
            (case find_one db
                    (EmailOrUsername (signup_email user_data) (signup_username user_data)) s of
               (Inl e, s1) \<Rightarrow> (Inl (Unhandled e), s1)
             | (Inr (Some existing_user), s1) \<Rightarrow>
                 (Inl (HTTPException 400
                         (Some (py ''Email or username already registered'')) []), s1)
             | (Inr None, s1) \<Rightarrow>
                 (let new_user =
                        \<lparr>email = signup_email user_data,
                         username = signup_username user_data,
                         hashed_password = get_password_hash cfg (signup_password user_data),
                         created_at = utcnow cfg\<rparr>
                  in (case insert_one db new_user s1 of
                        (Inl e, s2) \<Rightarrow> (Inl (Unhandled e), s2)
                      | (Inr inserted_id, s2) \<Rightarrow>
                          (Inr (TokenResponse
                                  (create_access_token cfg (email new_user)
                                     (timedelta_minutes (ACCESS_TOKEN_EXPIRE_MINUTES cfg)))
                                  (py ''bearer'')
                                  (UserResponse inserted_id (email new_user)
                                     (username new_user)
                                     (isoformat cfg (created_at new_user)))), s2))))))"

definition login ::
  "env \<Rightarrow> 's store \<Rightarrow> UserLogin \<Rightarrow> 's \<Rightarrow> (http_error + TokenResponse) \<times> 's" where
  "login cfg db user_data s =
     (case authenticate_user cfg db (login_email user_data) (login_password user_data) s of
        (Inl e, s1) \<Rightarrow> (Inl (Unhandled e), s1)
      | (Inr None, s1) \<Rightarrow>
          (Inl (HTTPException 401 (Some (py ''Incorrect email or password''))
                  [(py ''WWW-Authenticate'', py ''Bearer'')]), s1)
      | (Inr (Some user), s1) \<Rightarrow>
          (Inr (TokenResponse
                  (create_access_token cfg (email user)
                     (timedelta_minutes (ACCESS_TOKEN_EXPIRE_MINUTES cfg)))
                  (py ''bearer'')
                  (UserResponse (doc_id user) (email user) (username user)
                     (isoformat cfg (created_at user)))), s1))"

definition get_current_user_info :: "env \<Rightarrow> user_doc \<Rightarrow> UserResponse" where
  "get_current_user_info cfg current_user =
     UserResponse (doc_id current_user) (email current_user) (username current_user)
       (isoformat cfg (created_at current_user))"

section \<open>An in-memory store and a configuration\<close>

text \<open>
  A store that keeps its collections in lists and enforces the unique indexes that
  were created on the users, for the closed instances of the theorems below.
  \<open>mem_lost_after\<close> is the number of round trips it still answers before the connection
  is lost (\<open>None\<close>: it is never lost); after that every operation raises. \<open>mem_racing\<close>
  holds the documents that concurrent requests insert while this request awaits its
  \<^verbatim>\<open>find_one\<close>.
\<close>

record mem =
  mem_lost_after :: "nat option"
  mem_users :: "user_doc list"
  mem_unique :: "string list"
  mem_subjects :: "subject_doc list"
  mem_racing :: "user_doc list"

definition mem_up :: "mem \<Rightarrow> bool" where
  "mem_up m = (mem_lost_after m \<noteq> Some 0)"

definition answered :: "mem \<Rightarrow> mem" where
  "answered m =
     (case mem_lost_after m of
        None \<Rightarrow> m
      | Some k \<Rightarrow> m\<lparr>mem_lost_after := Some (k - 1)\<rparr>)"

fun matches :: "user_filter \<Rightarrow> user_doc \<Rightarrow> bool" where
  "matches (ByEmail e) u = (email u = e)"
| "matches (EmailOrUsername e n) u = (email u = e \<or> username u = n)"

definition user_field :: "string \<Rightarrow> user_doc \<Rightarrow> str" where
  "user_field f u = (if f = ''email'' then email u else if f = ''username'' then username u else [])"

definition unreachable :: exn where
  "unreachable = ServerSelectionTimeoutError (py ''localhost:27017: Connection refused'')"

definition duplicate_key :: exn where
  "duplicate_key = DuplicateKeyError (py ''E11000 duplicate key error'')"

definition mem_find_one :: "user_filter \<Rightarrow> mem \<Rightarrow> (exn + user_doc option) \<times> mem" where
  "mem_find_one f m =
     (if \<not> mem_up m then (Inl unreachable, m)
      else (Inr (find (matches f) (mem_users m)),
            answered (m\<lparr>mem_users := mem_users m @ mem_racing m, mem_racing := []\<rparr>)))"

definition violates :: "new_user \<Rightarrow> mem \<Rightarrow> bool" where
  "violates u m =
     (list_ex (\<lambda>f. f = ''email'') (mem_unique m) \<and>
        list_ex (\<lambda>v. email v = email u) (mem_users m) \<or>
      list_ex (\<lambda>f. f = ''username'') (mem_unique m) \<and>
        list_ex (\<lambda>v. username v = username u) (mem_users m))"

text \<open>The identifier the store assigns stands for the \<^verbatim>\<open>ObjectId\<close>, as its string.\<close>

definition mem_insert_one :: "new_user \<Rightarrow> mem \<Rightarrow> (exn + str) \<times> mem" where
  "mem_insert_one u m =
     (if \<not> mem_up m then (Inl unreachable, m)
      else if violates u m then (Inl duplicate_key, answered m)
      else (let i = replicate (Suc (length (mem_users m))) 97
            in (Inr i,
                answered (m\<lparr>mem_users := mem_users m @
                   [\<lparr>email = email u, username = username u,
                     hashed_password = hashed_password u, created_at = created_at u,
                     doc_id = i\<rparr>]\<rparr>))))"

definition mem_create_index ::
  "collection \<Rightarrow> string \<Rightarrow> bool \<Rightarrow> mem \<Rightarrow> (exn + unit) \<times> mem" where
  "mem_create_index c f unique m =
     (if \<not> mem_up m then (Inl unreachable, m)
      else if c = Users \<and> unique
      then (if distinct (map (user_field f) (mem_users m))
            then (Inr (), answered (m\<lparr>mem_unique := f # mem_unique m\<rparr>))
            else (Inl duplicate_key, answered m))
      else (Inr (), answered m))"

definition mem_count_documents :: "collection \<Rightarrow> mem \<Rightarrow> (exn + nat) \<times> mem" where
  "mem_count_documents c m =
     (if \<not> mem_up m then (Inl unreachable, m)
      else (Inr (case c of Users \<Rightarrow> length (mem_users m)
                 | Subjects \<Rightarrow> length (mem_subjects m)
                 | Materials \<Rightarrow> 0), answered m))"

definition mem_insert_many :: "subject_doc list \<Rightarrow> mem \<Rightarrow> (exn + unit) \<times> mem" where
  "mem_insert_many docs m =
     (if \<not> mem_up m then (Inl unreachable, m)
      else (Inr (), answered (m\<lparr>mem_subjects := mem_subjects m @ docs\<rparr>)))"

definition mem_store :: "mem store" where
  "mem_store =
     \<lparr>find_one = mem_find_one, insert_one = mem_insert_one,
      create_index = mem_create_index, count_documents = mem_count_documents,
      insert_many = mem_insert_many\<rparr>"

text \<open>A configuration with a toy hasher and a toy signing function, for the same purpose.\<close>

definition demo_sign :: "str \<Rightarrow> claims \<Rightarrow> str" where
  "demo_sign k c = k @ subject c @ [nat (expiry c)]"

definition demo_hash :: "str \<Rightarrow> str" where
  "demo_hash p = 36 # rev p"

definition demo_env :: env where
  "demo_env =
     \<lparr>SECRET_KEY = py ''k'', sign = demo_sign,
      get_password_hash = demo_hash, verify_password = (\<lambda>p h. h = demo_hash p),
      ACCESS_TOKEN_EXPIRE_MINUTES = 30, utcnow = 1000, isoformat = (\<lambda>t. [nat t])\<rparr>"

definition alice :: user_doc where
  "alice =
     \<lparr>email = py ''a@x.com'', username = py ''alice'',
      hashed_password = demo_hash (py ''secret1''), created_at = 900, doc_id = py ''a''\<rparr>"

text \<open>A running store that holds \<open>alice\<close> and enforces both unique indexes.\<close>

definition mem0 :: mem where
  "mem0 =
     \<lparr>mem_lost_after = None, mem_users = [alice], mem_unique = [''username'', ''email''],
      mem_subjects = [], mem_racing = []\<rparr>"

text \<open>
  The same store before \<open>alice\<close> is in: her signup is in flight and lands while this
  request awaits its \<^verbatim>\<open>find_one\<close>.
\<close>

definition mem_race :: mem where
  "mem_race =
     \<lparr>mem_lost_after = None, mem_users = [], mem_unique = [''username'', ''email''],
      mem_subjects = [], mem_racing = [alice]\<rparr>"


section \<open>Properties of \<^verbatim>\<open>validate_email\<close>\<close>

text \<open>
  A repetition matches exactly when the string splits into a run of at least \<open>n\<close>
  class characters and a rest that the remaining pieces match: backtracking tries every
  such split.
\<close>

lemma re_match_AtLeast:
  "re_match (AtLeast n P # ps) s \<longleftrightarrow>
     (\<exists>xs ys. s = xs @ ys \<and> n \<le> length xs \<and> list_all P xs \<and> re_match ps ys)"
proof
  assume "re_match (AtLeast n P # ps) s"
  then obtain k where k: "n \<le> k" "k \<le> length (takeWhile P s)" "re_match ps (drop k s)"
    by (auto simp: list_ex_iff)
  have "take k (takeWhile P s @ dropWhile P s) = take k (takeWhile P s)"
    using k(2) by (simp del: takeWhile_dropWhile_id)
  then have tk: "take k s = take k (takeWhile P s)" by simp
  have all: "list_all P (take k s)"
    unfolding tk list_all_iff by (auto dest: in_set_takeD set_takeWhileD)
  have len: "length (take k s) = k"
    using k(2) length_takeWhile_le [of P s] by simp
  have "s = take k s @ drop k s \<and> n \<le> length (take k s) \<and> list_all P (take k s) \<and>
      re_match ps (drop k s)"
    using k(1,3) all len by simp
  then show "\<exists>xs ys. s = xs @ ys \<and> n \<le> length xs \<and> list_all P xs \<and> re_match ps ys"
    by (intro exI)
next
  assume "\<exists>xs ys. s = xs @ ys \<and> n \<le> length xs \<and> list_all P xs \<and> re_match ps ys"
  then obtain xs ys where h: "s = xs @ ys" "n \<le> length xs" "list_all P xs" "re_match ps ys"
    by (elim exE conjE)
  have "takeWhile P s = xs @ takeWhile P ys"
    using h(1,3) by (simp add: list_all_iff)
  then have le: "length xs \<le> length (takeWhile P s)" by simp
  have dr: "re_match ps (drop (length xs) s)" using h(1,4) by simp
  have "length xs \<in> set (rev [n ..< Suc (length (takeWhile P s))])"
    using h(2) le by auto
  then have "\<exists>k \<in> set (rev [n ..< Suc (length (takeWhile P s))]). re_match ps (drop k s)"
    using dr by (rule bexI [rotated])
  then show "re_match (AtLeast n P # ps) s"
    by (simp only: re_match.simps list_ex_iff)
qed

lemma re_match_Lit:
  "re_match (Lit c # ps) s \<longleftrightarrow> (\<exists>r. s = c # r \<and> re_match ps r)"
  by (cases s) auto

lemma re_match_AtLeastI:
  "n \<le> length xs \<Longrightarrow> list_all P xs \<Longrightarrow> re_match ps ys \<Longrightarrow>
     re_match (AtLeast n P # ps) (xs @ ys)"
  by (rule iffD2 [OF re_match_AtLeast]) (intro exI conjI, rule refl, assumption+)

lemma re_match_AtLeastE:
  assumes "re_match (AtLeast n P # ps) s"
  obtains xs ys where "s = xs @ ys" "n \<le> length xs" "list_all P xs" "re_match ps ys"
proof -
  from assms
  have "\<exists>xs ys. s = xs @ ys \<and> n \<le> length xs \<and> list_all P xs \<and> re_match ps ys"
    by (rule iffD1 [OF re_match_AtLeast])
  then show thesis using that by blast
qed

lemma re_match_LitE:
  assumes "re_match (Lit c # ps) s"
  obtains r where "s = c # r" "re_match ps r"
proof -
  from assms have "\<exists>r. s = c # r \<and> re_match ps r"
    by (rule iffD1 [OF re_match_Lit])
  then show thesis using that by blast
qed

lemma re_match_LitI: "re_match ps r \<Longrightarrow> re_match (Lit c # ps) (c # r)"
  by simp

lemma re_match_Dollar: "re_match [Dollar] s \<longleftrightarrow> s = [] \<or> s = [newline]"
  by simp

lemma validate_email_unfold:
  "validate_email e \<longleftrightarrow>
     (\<exists>l d t r. e = l @ [64] @ d @ [46] @ t @ r \<and>
        l \<noteq> [] \<and> list_all local_class l \<and>
        d \<noteq> [] \<and> list_all domain_class d \<and>
        2 \<le> length t \<and> list_all tld_class t \<and> (r = [] \<or> r = [newline]))"
  (is "_ \<longleftrightarrow> ?R")
proof
  assume "validate_email e"
  then have 0: "re_match (AtLeast 1 local_class # Lit 64 # AtLeast 1 domain_class # Lit 46 #
      AtLeast 2 tld_class # [Dollar]) e"
    by (simp only: validate_email_def pattern_def)
  from 0 obtain l r1 where 1: "e = l @ r1" "1 \<le> length l" "list_all local_class l"
      "re_match (Lit 64 # AtLeast 1 domain_class # Lit 46 # AtLeast 2 tld_class # [Dollar]) r1"
    by (rule re_match_AtLeastE)
  from 1(4) obtain r2 where 2: "r1 = 64 # r2"
      "re_match (AtLeast 1 domain_class # Lit 46 # AtLeast 2 tld_class # [Dollar]) r2"
    by (rule re_match_LitE)
  from 2(2) obtain d r3 where 3: "r2 = d @ r3" "1 \<le> length d" "list_all domain_class d"
      "re_match (Lit 46 # AtLeast 2 tld_class # [Dollar]) r3"
    by (rule re_match_AtLeastE)
  from 3(4) obtain r4 where 4: "r3 = 46 # r4" "re_match (AtLeast 2 tld_class # [Dollar]) r4"
    by (rule re_match_LitE)
  from 4(2) obtain t r where 5: "r4 = t @ r" "2 \<le> length t" "list_all tld_class t"
      "re_match [Dollar] r"
    by (rule re_match_AtLeastE)
  have e: "e = l @ [64] @ d @ [46] @ t @ r"
    by (simp only: 1(1) 2(1) 3(1) 4(1) 5(1) append_Cons append_Nil)
  have l: "l \<noteq> []" using 1(2) by (cases l) simp_all
  have d: "d \<noteq> []" using 3(2) by (cases d) simp_all
  have r: "r = [] \<or> r = [newline]" using 5(4) by (simp only: re_match_Dollar)
  show ?R
    by (intro exI conjI) (rule e l 1(3) d 3(3) 5(2) 5(3) r)+
next
  assume ?R
  then obtain l d t r where h: "e = l @ [64] @ d @ [46] @ t @ r"
      "l \<noteq> []" "list_all local_class l" "d \<noteq> []" "list_all domain_class d"
      "2 \<le> length t" "list_all tld_class t" "r = [] \<or> r = [newline]"
    by (elim exE conjE)
  have 5: "re_match [Dollar] r" using h(8) by (simp only: re_match_Dollar)
  have 4: "re_match (AtLeast 2 tld_class # [Dollar]) (t @ r)"
    using h(6,7) 5 by (rule re_match_AtLeastI)
  have 3: "re_match (Lit 46 # AtLeast 2 tld_class # [Dollar]) (46 # t @ r)"
    using 4 by (rule re_match_LitI)
  have ld: "1 \<le> length d" using h(4) by (cases d) simp_all
  have 2: "re_match (AtLeast 1 domain_class # Lit 46 # AtLeast 2 tld_class # [Dollar])
      (d @ 46 # t @ r)"
    using ld h(5) 3 by (rule re_match_AtLeastI)
  have 1: "re_match (Lit 64 # AtLeast 1 domain_class # Lit 46 # AtLeast 2 tld_class # [Dollar])
      (64 # d @ 46 # t @ r)"
    using 2 by (rule re_match_LitI)
  have ll: "1 \<le> length l" using h(2) by (cases l) simp_all
  have "re_match (AtLeast 1 local_class # Lit 64 # AtLeast 1 domain_class # Lit 46 #
      AtLeast 2 tld_class # [Dollar]) (l @ 64 # d @ 46 # t @ r)"
    using ll h(3) 1 by (rule re_match_AtLeastI)
  then show "validate_email e"
    by (simp only: validate_email_def pattern_def h(1) append_Cons append_Nil)
qed

lemma email_shape_unfold:
  "email_shape b \<longleftrightarrow>
     (\<exists>l d t. b = l @ [64] @ d @ [46] @ t \<and>
        l \<noteq> [] \<and> list_all local_class l \<and>
        d \<noteq> [] \<and> list_all domain_class d \<and>
        2 \<le> length t \<and> list_all tld_class t)"
  by (simp only: email_shape_def)

lemma validate_email_iff:
  "validate_email e \<longleftrightarrow> email_shape e \<or> (\<exists>b. e = b @ [newline] \<and> email_shape b)"
proof
  assume "validate_email e"
  then obtain l d t r where h: "e = l @ [64] @ d @ [46] @ t @ r"
      "l \<noteq> []" "list_all local_class l" "d \<noteq> []" "list_all domain_class d"
      "2 \<le> length t" "list_all tld_class t" "r = [] \<or> r = [newline]"
    unfolding validate_email_unfold by (elim exE conjE)
  have s: "email_shape (l @ [64] @ d @ [46] @ t)"
    unfolding email_shape_unfold by (intro exI conjI) (rule refl h(2-7))+
  from h(8) show "email_shape e \<or> (\<exists>b. e = b @ [newline] \<and> email_shape b)"
  proof
    assume "r = []"
    then have "e = l @ [64] @ d @ [46] @ t" using h(1) by simp
    then show ?thesis using s by simp
  next
    assume "r = [newline]"
    then have "e = (l @ [64] @ d @ [46] @ t) @ [newline]" using h(1) by simp
    then have "e = (l @ [64] @ d @ [46] @ t) @ [newline] \<and> email_shape (l @ [64] @ d @ [46] @ t)"
      using s by (intro conjI)
    then have "\<exists>b. e = b @ [newline] \<and> email_shape b" by (rule exI)
    then show ?thesis by (rule disjI2)
  qed
next
  assume a: "email_shape e \<or> (\<exists>b. e = b @ [newline] \<and> email_shape b)"
  have "\<exists>b r. e = b @ r \<and> email_shape b \<and> (r = [] \<or> r = [newline])"
  proof (rule disjE [OF a])
    assume "email_shape e"
    then have "e = e @ [] \<and> email_shape e \<and> ([] = [] \<or> [] = [newline])" by simp
    then show ?thesis by (intro exI, assumption)
  next
    assume "\<exists>b. e = b @ [newline] \<and> email_shape b"
    then obtain b where "e = b @ [newline]" "email_shape b" by (elim exE conjE)
    then have "e = b @ [newline] \<and> email_shape b \<and> ([newline] = [] \<or> [newline] = [newline])"
      by simp
    then show ?thesis by (intro exI, assumption)
  qed
  then obtain b r where b: "e = b @ r" "email_shape b" "r = [] \<or> r = [newline]"
    by (elim exE conjE)
  from b(2) obtain l d t where h: "b = l @ [64] @ d @ [46] @ t"
      "l \<noteq> []" "list_all local_class l" "d \<noteq> []" "list_all domain_class d"
      "2 \<le> length t" "list_all tld_class t"
    unfolding email_shape_unfold by (elim exE conjE)
  have e: "e = l @ [64] @ d @ [46] @ t @ r" using b(1) h(1) by simp
  show "validate_email e"
    unfolding validate_email_unfold by (intro exI conjI) (rule e h(2-7) b(3))+
qed

lemma ends_with_newline_append: "ends_with_newline (b @ [newline])"
  by (simp add: ends_with_newline_def)

text \<open>
  An accepted address stays accepted with one more newline at its end only when it
  does not end in a newline already: \<^verbatim>\<open>"a@b.com\n"\<close> is accepted, \<^verbatim>\<open>"a@b.com\n\n"\<close> is not,
  since \<^verbatim>\<open>$\<close> matches before the last newline of the string only.
\<close>

theorem validate_email_trailing_newline_counterexample:
  "validate_email (py ''a@b.com'' @ [newline]) \<and>
   \<not> validate_email ((py ''a@b.com'' @ [newline]) @ [newline])"
  by code_simp

text \<open>
  Claim C10, amended. \<^verbatim>\<open>validate_email\<close> accepts strings that contain a newline: for
  every string \<open>e\<close> that it accepts and that does not itself end in a newline, the
  string \<open>e\<close> followed by one \<^verbatim>\<open>'\n'\<close> is accepted too (so \<^verbatim>\<open>"a@b.com\n"\<close> is accepted).
\<close>

theorem validate_email_trailing_newline:
  assumes "validate_email e" and "\<not> ends_with_newline e"
  shows "validate_email (e @ [newline])"
proof -
  from assms(1) have "email_shape e \<or> (\<exists>b. e = b @ [newline] \<and> email_shape b)"
    by (simp only: validate_email_iff)
  moreover have "\<not> (\<exists>b. e = b @ [newline] \<and> email_shape b)"
    using assms(2) ends_with_newline_append by blast
  ultimately have "email_shape e" by blast
  then have "\<exists>b. e @ [newline] = b @ [newline] \<and> email_shape b" by blast
  then show ?thesis by (simp only: validate_email_iff simp_thms)
qed

theorem validate_email_trailing_newline_witness:
  "validate_email (py ''a@b.com'') \<and> \<not> ends_with_newline (py ''a@b.com'') \<and>
   validate_email (py ''a@b.com'' @ [newline])"
proof -
  have 1: "validate_email (py ''a@b.com'')" by code_simp
  have 2: "\<not> ends_with_newline (py ''a@b.com'')" by code_simp
  from validate_email_trailing_newline [OF 1 2] 1 2 show ?thesis by blast
qed

section \<open>The steps of \<^verbatim>\<open>signup\<close>\<close>

text \<open>The lifetime of a token and the creation time in the toy configuration.\<close>

lemma demo_env_ttl: "timedelta_minutes (ACCESS_TOKEN_EXPIRE_MINUTES demo_env) = 1800"
  by (simp add: demo_env_def timedelta_minutes_def)

lemma demo_env_created: "isoformat demo_env (utcnow demo_env) = [1000]"
  by (simp add: demo_env_def)

text \<open>The three details of a status 400 are different strings.\<close>

lemma details_distinct:
  "py ''Invalid email format'' \<noteq> py ''Password must be at least 6 characters long''"
  "py ''Email or username already registered'' \<noteq> py ''Invalid email format''"
  "py ''Email or username already registered'' \<noteq>
     py ''Password must be at least 6 characters long''"
  by (simp_all add: py_def)

text \<open>
  A request that passes both validations is registered and answered with a token when
  the lookup finds nobody and the insert succeeds; the identifier in the answer is the
  one that \<^verbatim>\<open>insert_one\<close> returned.
\<close>

lemma signup_registered:
  assumes "validate_email (signup_email user_data)"
    and "6 \<le> length (signup_password user_data)"
    and "find_one db (EmailOrUsername (signup_email user_data) (signup_username user_data)) s =
      (Inr None, sa)"
    and "insert_one db
      \<lparr>email = signup_email user_data, username = signup_username user_data,
       hashed_password = get_password_hash cfg (signup_password user_data),
       created_at = utcnow cfg\<rparr> sa = (Inr i, sb)"
  shows "signup cfg db user_data s =
    (Inr (TokenResponse
            (create_access_token cfg (signup_email user_data)
               (timedelta_minutes (ACCESS_TOKEN_EXPIRE_MINUTES cfg)))
            (py ''bearer'')
            (UserResponse i (signup_email user_data) (signup_username user_data)
               (isoformat cfg (utcnow cfg)))), sb)"
  using assms by (simp add: signup_def validate_password_def Let_def)

text \<open>\<^verbatim>\<open>signup\<close> answers with the error of the email check exactly when that check fails.\<close>

lemma signup_email_error_iff:
  assumes "validate_email (signup_email user_data) \<longleftrightarrow> shape"
  shows "fst (signup cfg db user_data s) =
      Inl (HTTPException 400 (Some (py ''Invalid email format'')) []) \<longleftrightarrow> \<not> shape"
proof (cases "validate_email (signup_email user_data)")
  case False
  then show ?thesis using assms by (simp add: signup_def)
next
  case True
  have "fst (signup cfg db user_data s) \<noteq>
      Inl (HTTPException 400 (Some (py ''Invalid email format'')) [])"
    using True details_distinct
    by (simp add: signup_def validate_password_def Let_def
        split: prod.splits sum.splits option.splits)
  then show ?thesis using True assms by simp
qed

text \<open>
  \<^verbatim>\<open>signup\<close> answers with the error of the password check exactly when the email check
  passes and the password has fewer than 6 characters.
\<close>

lemma signup_password_error_iff:
  "fst (signup cfg db user_data s) =
      Inl (HTTPException 400 (Some (py ''Password must be at least 6 characters long'')) []) \<longleftrightarrow>
    validate_email (signup_email user_data) \<and> length (signup_password user_data) < 6"
proof (cases "validate_email (signup_email user_data)")
  case False
  then show ?thesis using details_distinct by (simp add: signup_def)
next
  case True
  show ?thesis
  proof (cases "length (signup_password user_data) < 6")
    case short: True
    then show ?thesis using True by (simp add: signup_def validate_password_def)
  next
    case False
    have "fst (signup cfg db user_data s) \<noteq>
        Inl (HTTPException 400 (Some (py ''Password must be at least 6 characters long'')) [])"
      using True False details_distinct
      by (simp add: signup_def validate_password_def Let_def
          split: prod.splits sum.splits option.splits)
    then show ?thesis using False by simp
  qed
qed

section \<open>Properties of \<^verbatim>\<open>signup\<close>: validation\<close>

text \<open>
  \<^verbatim>\<open>"a!b@c.de"\<close> has an ASCII local part, an \<^verbatim>\<open>@\<close> and a domain whose last label has two
  characters, and the email check rejects it: \<^verbatim>\<open>!\<close> is not in the class of the local
  part.
\<close>

theorem signup_email_check_counterexample:
  "py ''a!b@c.de'' = py ''a!b'' @ [64] @ py ''c'' @ [46] @ py ''de'' \<and>
   list_all (\<lambda>c. c < 128) (py ''a!b'') \<and> 2 \<le> length (py ''de'') \<and>
   \<not> validate_email (py ''a!b@c.de'')"
  by code_simp

text \<open>
  Claim C8, amended. For every signup request whose email does not end in a newline,
  the email check accepts exactly the strings made of a non-empty local part over
  \<^verbatim>\<open>[a-zA-Z0-9._%+-]\<close>, an \<^verbatim>\<open>@\<close>, a non-empty domain part over \<^verbatim>\<open>[a-zA-Z0-9.-]\<close>, a dot and a
  last label of at least two ASCII letters. Every other such request fails with status
  400 and the detail "Invalid email format", and the store is not touched; \<^verbatim>\<open>signup\<close>
  answers with that error for no request of this form: such a request goes on to the
  password check, fails there when the password is shorter than 6 characters, and
  otherwise is registered and answered with a token when the lookup finds nobody and
  the insert succeeds.
\<close>

theorem signup_email_check:
  assumes "\<not> ends_with_newline (signup_email user_data)"
  shows "(validate_email (signup_email user_data) \<longleftrightarrow> email_shape (signup_email user_data)) \<and>
    (\<not> email_shape (signup_email user_data) \<longrightarrow>
       signup cfg db user_data s =
         (Inl (HTTPException 400 (Some (py ''Invalid email format'')) []), s)) \<and>
    (fst (signup cfg db user_data s) =
         Inl (HTTPException 400 (Some (py ''Invalid email format'')) []) \<longleftrightarrow>
       \<not> email_shape (signup_email user_data)) \<and>
    (email_shape (signup_email user_data) \<and> length (signup_password user_data) < 6 \<longrightarrow>
       signup cfg db user_data s =
         (Inl (HTTPException 400
                 (Some (py ''Password must be at least 6 characters long'')) []), s)) \<and>
    (email_shape (signup_email user_data) \<and> 6 \<le> length (signup_password user_data) \<and>
     find_one db (EmailOrUsername (signup_email user_data) (signup_username user_data)) s =
       (Inr None, sa) \<and>
     insert_one db
       \<lparr>email = signup_email user_data, username = signup_username user_data,
        hashed_password = get_password_hash cfg (signup_password user_data),
        created_at = utcnow cfg\<rparr> sa = (Inr i, sb) \<longrightarrow>
       signup cfg db user_data s =
         (Inr (TokenResponse
                 (create_access_token cfg (signup_email user_data)
                    (timedelta_minutes (ACCESS_TOKEN_EXPIRE_MINUTES cfg)))
                 (py ''bearer'')
                 (UserResponse i (signup_email user_data) (signup_username user_data)
                    (isoformat cfg (utcnow cfg)))), sb))"
proof -
  have "\<not> (\<exists>b. signup_email user_data = b @ [newline] \<and> email_shape b)"
    using assms ends_with_newline_append by metis
  then have iff: "validate_email (signup_email user_data) \<longleftrightarrow> email_shape (signup_email user_data)"
    by (simp only: validate_email_iff simp_thms)
  have 1: "\<not> email_shape (signup_email user_data) \<longrightarrow>
      signup cfg db user_data s =
        (Inl (HTTPException 400 (Some (py ''Invalid email format'')) []), s)"
    using iff by (simp add: signup_def)
  have 2: "fst (signup cfg db user_data s) =
        Inl (HTTPException 400 (Some (py ''Invalid email format'')) []) \<longleftrightarrow>
      \<not> email_shape (signup_email user_data)"
    using iff by (rule signup_email_error_iff)
  have 3: "email_shape (signup_email user_data) \<and> length (signup_password user_data) < 6 \<longrightarrow>
      signup cfg db user_data s =
        (Inl (HTTPException 400
                (Some (py ''Password must be at least 6 characters long'')) []), s)"
    using iff by (simp add: signup_def validate_password_def)
  have 4: "email_shape (signup_email user_data) \<and> 6 \<le> length (signup_password user_data) \<and>
     find_one db (EmailOrUsername (signup_email user_data) (signup_username user_data)) s =
       (Inr None, sa) \<and>
     insert_one db
       \<lparr>email = signup_email user_data, username = signup_username user_data,
        hashed_password = get_password_hash cfg (signup_password user_data),
        created_at = utcnow cfg\<rparr> sa = (Inr i, sb) \<longrightarrow>
       signup cfg db user_data s =
         (Inr (TokenResponse
                 (create_access_token cfg (signup_email user_data)
                    (timedelta_minutes (ACCESS_TOKEN_EXPIRE_MINUTES cfg)))
                 (py ''bearer'')
                 (UserResponse i (signup_email user_data) (signup_username user_data)
                    (isoformat cfg (utcnow cfg)))), sb)"
  proof (intro impI)
    assume h: "email_shape (signup_email user_data) \<and> 6 \<le> length (signup_password user_data) \<and>
      find_one db (EmailOrUsername (signup_email user_data) (signup_username user_data)) s =
        (Inr None, sa) \<and>
      insert_one db
        \<lparr>email = signup_email user_data, username = signup_username user_data,
         hashed_password = get_password_hash cfg (signup_password user_data),
         created_at = utcnow cfg\<rparr> sa = (Inr i, sb)"
    from h [THEN conjunct1] iff have v: "validate_email (signup_email user_data)" by simp
    show "signup cfg db user_data s =
        (Inr (TokenResponse
                (create_access_token cfg (signup_email user_data)
                   (timedelta_minutes (ACCESS_TOKEN_EXPIRE_MINUTES cfg)))
                (py ''bearer'')
                (UserResponse i (signup_email user_data) (signup_username user_data)
                   (isoformat cfg (utcnow cfg)))), sb)"
      by (rule signup_registered [OF v h [THEN conjunct2, THEN conjunct1]
            h [THEN conjunct2, THEN conjunct2, THEN conjunct1]
            h [THEN conjunct2, THEN conjunct2, THEN conjunct2]])
  qed
  from iff 1 2 3 4 show ?thesis by (intro conjI)
qed

theorem signup_email_check_witness:
  "\<not> ends_with_newline (py ''a!b@c.de'') \<and> \<not> email_shape (py ''a!b@c.de'') \<and>
   signup demo_env mem_store (UserSignup (py ''a!b@c.de'') (py ''bob'') (py ''secret1'')) mem0 =
     (Inl (HTTPException 400 (Some (py ''Invalid email format'')) []), mem0) \<and>
   \<not> ends_with_newline (py ''b@x.com'') \<and> email_shape (py ''b@x.com'') \<and>
   signup demo_env mem_store (UserSignup (py ''b@x.com'') (py ''bob'') (py ''abc'')) mem0 =
     (Inl (HTTPException 400 (Some (py ''Password must be at least 6 characters long'')) []),
      mem0) \<and>
   fst (signup demo_env mem_store (UserSignup (py ''b@x.com'') (py ''bob'') (py ''secret2'')) mem0) =
     Inr (TokenResponse (create_access_token demo_env (py ''b@x.com'') 1800) (py ''bearer'')
            (UserResponse (py ''aa'') (py ''b@x.com'') (py ''bob'') [1000]))"
proof -
  let ?bad = "UserSignup (py ''a!b@c.de'') (py ''bob'') (py ''secret1'')"
  let ?short = "UserSignup (py ''b@x.com'') (py ''bob'') (py ''abc'')"
  let ?good = "UserSignup (py ''b@x.com'') (py ''bob'') (py ''secret2'')"
  let ?m = "\<lparr>mem_lost_after = None,
      mem_users = [alice,
        \<lparr>email = py ''b@x.com'', username = py ''bob'',
         hashed_password = demo_hash (py ''secret2''), created_at = 1000,
         doc_id = py ''aa''\<rparr>],
      mem_unique = [''username'', ''email''], mem_subjects = [], mem_racing = []\<rparr>"
  have n1: "\<not> ends_with_newline (signup_email ?bad)" by code_simp
  have v1: "\<not> validate_email (signup_email ?bad)" by code_simp
  have n2: "\<not> ends_with_newline (signup_email ?short)" by code_simp
  have v2: "validate_email (signup_email ?short)" by code_simp
  have n3: "\<not> ends_with_newline (signup_email ?good)" by code_simp
  have v3: "validate_email (signup_email ?good)" by code_simp
  have e1: "\<not> email_shape (signup_email ?bad)"
    using signup_email_check [OF n1, THEN conjunct1] v1 by simp
  have e2: "email_shape (signup_email ?short)"
    using signup_email_check [OF n2, THEN conjunct1] v2 by simp
  have e3: "email_shape (signup_email ?good)"
    using signup_email_check [OF n3, THEN conjunct1] v3 by simp
  have l2: "length (signup_password ?short) < 6" by code_simp
  have l3: "6 \<le> length (signup_password ?good)" by code_simp
  have f3: "find_one mem_store
      (EmailOrUsername (signup_email ?good) (signup_username ?good)) mem0 = (Inr None, mem0)"
    by code_simp
  have i3: "insert_one mem_store
      \<lparr>email = signup_email ?good, username = signup_username ?good,
       hashed_password = get_password_hash demo_env (signup_password ?good),
       created_at = utcnow demo_env\<rparr> mem0 = (Inr (py ''aa''), ?m)"
    by code_simp
  have 1: "signup demo_env mem_store ?bad mem0 =
      (Inl (HTTPException 400 (Some (py ''Invalid email format'')) []), mem0)"
    by (rule signup_email_check [OF n1, THEN conjunct2, THEN conjunct1, THEN mp, OF e1])
  have 2: "signup demo_env mem_store ?short mem0 =
      (Inl (HTTPException 400 (Some (py ''Password must be at least 6 characters long'')) []),
       mem0)"
    by (rule signup_email_check
        [OF n2, THEN conjunct2, THEN conjunct2, THEN conjunct2, THEN conjunct1, THEN mp,
          OF conjI [OF e2 l2]])
  have 3: "signup demo_env mem_store ?good mem0 =
      (Inr (TokenResponse
              (create_access_token demo_env (signup_email ?good)
                 (timedelta_minutes (ACCESS_TOKEN_EXPIRE_MINUTES demo_env)))
              (py ''bearer'')
              (UserResponse (py ''aa'') (signup_email ?good) (signup_username ?good)
                 (isoformat demo_env (utcnow demo_env)))), ?m)"
    by (rule signup_email_check
        [OF n3, THEN conjunct2, THEN conjunct2, THEN conjunct2, THEN conjunct2, THEN mp,
          OF conjI [OF e3 conjI [OF l3 conjI [OF f3 i3]]]])
  have 4: "fst (signup demo_env mem_store ?good mem0) =
      Inr (TokenResponse (create_access_token demo_env (py ''b@x.com'') 1800) (py ''bearer'')
             (UserResponse (py ''aa'') (py ''b@x.com'') (py ''bob'') [1000]))"
    by (simp only: 3 fst_conv demo_env_ttl demo_env_created UserSignup.sel)
  from n1 e1 1 n2 e2 2 4 show ?thesis by simp
qed

text \<open>
  Claim C4. A signup request whose password has fewer than 6 characters fails with
  status 400 and a readable reason (that of the password check when the email is
  well-formed, that of the email check otherwise), and the store is not touched.
  \<^verbatim>\<open>signup\<close> answers with the error of the password check exactly when the email is
  accepted and the password has fewer than 6 characters: a request with an accepted
  email and a password of at least 6 characters, whatever its characters are, is
  registered and answered with a token when the lookup finds nobody and the insert
  succeeds. \<^verbatim>\<open>"abc"\<close> fails the password check and \<^verbatim>\<open>"abcdef"\<close> passes it; a length of at
  least 6 is all that \<^verbatim>\<open>validate_password\<close> asks for.
\<close>

theorem signup_password_check:
  "(length (signup_password user_data) < 6 \<longrightarrow>
      signup cfg db user_data s =
        (Inl (HTTPException 400
           (Some (if validate_email (signup_email user_data)
                  then py ''Password must be at least 6 characters long''
                  else py ''Invalid email format'')) []), s)) \<and>
   (fst (signup cfg db user_data s) =
        Inl (HTTPException 400 (Some (py ''Password must be at least 6 characters long'')) []) \<longleftrightarrow>
      validate_email (signup_email user_data) \<and> length (signup_password user_data) < 6) \<and>
   (validate_email (signup_email user_data) \<and> 6 \<le> length (signup_password user_data) \<and>
    find_one db (EmailOrUsername (signup_email user_data) (signup_username user_data)) s =
      (Inr None, sa) \<and>
    insert_one db
      \<lparr>email = signup_email user_data, username = signup_username user_data,
       hashed_password = get_password_hash cfg (signup_password user_data),
       created_at = utcnow cfg\<rparr> sa = (Inr i, sb) \<longrightarrow>
      signup cfg db user_data s =
        (Inr (TokenResponse
                (create_access_token cfg (signup_email user_data)
                   (timedelta_minutes (ACCESS_TOKEN_EXPIRE_MINUTES cfg)))
                (py ''bearer'')
                (UserResponse i (signup_email user_data) (signup_username user_data)
                   (isoformat cfg (utcnow cfg)))), sb)) \<and>
   validate_password (py ''abc'') =
     (False, Some (py ''Password must be at least 6 characters long'')) \<and>
   validate_password (py ''abcdef'') = (True, None) \<and>
   (fst (validate_password p) \<longleftrightarrow> 6 \<le> length p)"
proof -
  have 1: "length (signup_password user_data) < 6 \<longrightarrow>
      signup cfg db user_data s =
        (Inl (HTTPException 400
           (Some (if validate_email (signup_email user_data)
                  then py ''Password must be at least 6 characters long''
                  else py ''Invalid email format'')) []), s)"
    by (simp add: signup_def validate_password_def)
  have 2: "fst (signup cfg db user_data s) =
        Inl (HTTPException 400 (Some (py ''Password must be at least 6 characters long'')) []) \<longleftrightarrow>
      validate_email (signup_email user_data) \<and> length (signup_password user_data) < 6"
    by (rule signup_password_error_iff)
  have 3: "validate_email (signup_email user_data) \<and> 6 \<le> length (signup_password user_data) \<and>
    find_one db (EmailOrUsername (signup_email user_data) (signup_username user_data)) s =
      (Inr None, sa) \<and>
    insert_one db
      \<lparr>email = signup_email user_data, username = signup_username user_data,
       hashed_password = get_password_hash cfg (signup_password user_data),
       created_at = utcnow cfg\<rparr> sa = (Inr i, sb) \<longrightarrow>
      signup cfg db user_data s =
        (Inr (TokenResponse
                (create_access_token cfg (signup_email user_data)
                   (timedelta_minutes (ACCESS_TOKEN_EXPIRE_MINUTES cfg)))
                (py ''bearer'')
                (UserResponse i (signup_email user_data) (signup_username user_data)
                   (isoformat cfg (utcnow cfg)))), sb)"
  proof (intro impI)
    assume h: "validate_email (signup_email user_data) \<and>
      6 \<le> length (signup_password user_data) \<and>
      find_one db (EmailOrUsername (signup_email user_data) (signup_username user_data)) s =
        (Inr None, sa) \<and>
      insert_one db
        \<lparr>email = signup_email user_data, username = signup_username user_data,
         hashed_password = get_password_hash cfg (signup_password user_data),
         created_at = utcnow cfg\<rparr> sa = (Inr i, sb)"
    show "signup cfg db user_data s =
        (Inr (TokenResponse
                (create_access_token cfg (signup_email user_data)
                   (timedelta_minutes (ACCESS_TOKEN_EXPIRE_MINUTES cfg)))
                (py ''bearer'')
                (UserResponse i (signup_email user_data) (signup_username user_data)
                   (isoformat cfg (utcnow cfg)))), sb)"
      by (rule signup_registered [OF h [THEN conjunct1] h [THEN conjunct2, THEN conjunct1]
            h [THEN conjunct2, THEN conjunct2, THEN conjunct1]
            h [THEN conjunct2, THEN conjunct2, THEN conjunct2]])
  qed
  have 4: "validate_password (py ''abc'') =
      (False, Some (py ''Password must be at least 6 characters long''))"
    by (simp add: validate_password_def py_def)
  have 5: "validate_password (py ''abcdef'') = (True, None)"
    by (simp add: validate_password_def py_def)
  have 6: "fst (validate_password p) \<longleftrightarrow> 6 \<le> length p"
    by (simp add: validate_password_def)
  from 1 2 3 4 5 6 show ?thesis by (intro conjI)
qed

theorem signup_password_check_witness:
  "length (py ''abc'') < 6 \<and>
   signup demo_env mem_store (UserSignup (py ''new@x.com'') (py ''bob'') (py ''abc'')) mem0 =
     (Inl (HTTPException 400 (Some (py ''Password must be at least 6 characters long'')) []),
      mem0) \<and>
   length (py ''abcdef'') = 6 \<and>
   fst (signup demo_env mem_store (UserSignup (py ''new@x.com'') (py ''bob'') (py ''abcdef'')) mem0) =
     Inr (TokenResponse (create_access_token demo_env (py ''new@x.com'') 1800) (py ''bearer'')
            (UserResponse (py ''aa'') (py ''new@x.com'') (py ''bob'') [1000]))"
proof -
  let ?short = "UserSignup (py ''new@x.com'') (py ''bob'') (py ''abc'')"
  let ?six = "UserSignup (py ''new@x.com'') (py ''bob'') (py ''abcdef'')"
  let ?m = "\<lparr>mem_lost_after = None,
      mem_users = [alice,
        \<lparr>email = py ''new@x.com'', username = py ''bob'',
         hashed_password = demo_hash (py ''abcdef''), created_at = 1000,
         doc_id = py ''aa''\<rparr>],
      mem_unique = [''username'', ''email''], mem_subjects = [], mem_racing = []\<rparr>"
  have v1: "validate_email (signup_email ?short)" by code_simp
  have l1: "length (signup_password ?short) < 6" by code_simp
  have v2: "validate_email (signup_email ?six)" by code_simp
  have l2: "6 \<le> length (signup_password ?six)" by code_simp
  have f2: "find_one mem_store
      (EmailOrUsername (signup_email ?six) (signup_username ?six)) mem0 = (Inr None, mem0)"
    by code_simp
  have i2: "insert_one mem_store
      \<lparr>email = signup_email ?six, username = signup_username ?six,
       hashed_password = get_password_hash demo_env (signup_password ?six),
       created_at = utcnow demo_env\<rparr> mem0 = (Inr (py ''aa''), ?m)"
    by code_simp
  have 1: "signup demo_env mem_store ?short mem0 =
      (Inl (HTTPException 400
         (Some (if validate_email (signup_email ?short)
                then py ''Password must be at least 6 characters long''
                else py ''Invalid email format'')) []), mem0)"
    by (rule signup_password_check [THEN conjunct1, THEN mp, OF l1])
  have 2: "signup demo_env mem_store ?six mem0 =
      (Inr (TokenResponse
              (create_access_token demo_env (signup_email ?six)
                 (timedelta_minutes (ACCESS_TOKEN_EXPIRE_MINUTES demo_env)))
              (py ''bearer'')
              (UserResponse (py ''aa'') (signup_email ?six) (signup_username ?six)
                 (isoformat demo_env (utcnow demo_env)))), ?m)"
    by (rule signup_password_check
        [THEN conjunct2, THEN conjunct2, THEN conjunct1, THEN mp,
          OF conjI [OF v2 conjI [OF l2 conjI [OF f2 i2]]]])
  have 3: "fst (signup demo_env mem_store ?six mem0) =
      Inr (TokenResponse (create_access_token demo_env (py ''new@x.com'') 1800) (py ''bearer'')
             (UserResponse (py ''aa'') (py ''new@x.com'') (py ''bob'') [1000]))"
    by (simp only: 2 fst_conv demo_env_ttl demo_env_created UserSignup.sel)
  have 4: "length (py ''abc'') < 6" by code_simp
  have 5: "length (py ''abcdef'') = 6" by code_simp
  from 1 v1 have 6: "signup demo_env mem_store ?short mem0 =
      (Inl (HTTPException 400 (Some (py ''Password must be at least 6 characters long'')) []),
       mem0)"
    by simp
  from 4 6 5 3 show ?thesis by (intro conjI)
qed

section \<open>Properties of \<^verbatim>\<open>signup\<close>: the uniqueness check and the insert\<close>

lemma validate_password_ok: "6 \<le> length p \<Longrightarrow> validate_password p = (True, None)"
  by (simp add: validate_password_def)

text \<open>
  On the in-memory store the lookup of \<^verbatim>\<open>signup\<close> finds a user exactly when a stored user
  has the email or the username of the request.
\<close>

lemma mem_find_one_conflict:
  assumes "mem_up m"
  shows "(\<exists>u. fst (mem_find_one (EmailOrUsername e n) m) = Inr (Some u)) \<longleftrightarrow>
    (\<exists>u \<in> set (mem_users m). email u = e \<or> username u = n)"
proof -
  have "fst (mem_find_one (EmailOrUsername e n) m) =
      Inr (find (matches (EmailOrUsername e n)) (mem_users m))"
    using assms by (simp add: mem_find_one_def)
  moreover have "(\<exists>u. find (matches (EmailOrUsername e n)) (mem_users m) = Some u) \<longleftrightarrow>
      (\<exists>u \<in> set (mem_users m). email u = e \<or> username u = n)"
    using find_None_iff [of "matches (EmailOrUsername e n)" "mem_users m"] by auto
  ultimately show ?thesis by simp
qed

text \<open>
  The uniqueness check comes third. A request with the email of a stored user and the
  password \<^verbatim>\<open>"abc"\<close> fails at the password check, with its detail and not that of the
  conflict.
\<close>

theorem signup_conflict_counterexample:
  "find (matches (EmailOrUsername (py ''a@x.com'') (py ''bob''))) (mem_users mem0) = Some alice \<and>
   signup demo_env mem_store (UserSignup (py ''a@x.com'') (py ''bob'') (py ''abc'')) mem0 =
     (Inl (HTTPException 400 (Some (py ''Password must be at least 6 characters long'')) []),
      mem0) \<and>
   fst (signup demo_env mem_store (UserSignup (py ''a@x.com'') (py ''bob'') (py ''abc'')) mem0) \<noteq>
     Inl (HTTPException 400 (Some (py ''Email or username already registered'')) [])"
  by code_simp

text \<open>
  Claim C5, amended. For every signup request that passes the email check and the
  password check, if the store's lookup by email or username finds a user, signup
  fails with status 400 and the detail "Email or username already registered", whatever
  the username, and inserts nothing: the store is left as the lookup left it.
\<close>

theorem signup_conflict:
  assumes "validate_email (signup_email user_data)"
    and "6 \<le> length (signup_password user_data)"
    and "find_one db (EmailOrUsername (signup_email user_data) (signup_username user_data)) s =
           (Inr (Some existing_user), s1)"
  shows "signup cfg db user_data s =
           (Inl (HTTPException 400 (Some (py ''Email or username already registered'')) []), s1)"
  using assms by (simp add: signup_def validate_password_ok)

theorem signup_conflict_witness:
  "validate_email (py ''a@x.com'') \<and> 6 \<le> length (py ''secret2'') \<and>
   mem_find_one (EmailOrUsername (py ''a@x.com'') (py ''bob'')) mem0 = (Inr (Some alice), mem0) \<and>
   signup demo_env mem_store (UserSignup (py ''a@x.com'') (py ''bob'') (py ''secret2'')) mem0 =
     (Inl (HTTPException 400 (Some (py ''Email or username already registered'')) []), mem0)"
proof -
  have 1: "validate_email (signup_email (UserSignup (py ''a@x.com'') (py ''bob'') (py ''secret2'')))"
    by code_simp
  have 2: "6 \<le> length (signup_password (UserSignup (py ''a@x.com'') (py ''bob'') (py ''secret2'')))"
    by code_simp
  have 3: "find_one mem_store
      (EmailOrUsername (signup_email (UserSignup (py ''a@x.com'') (py ''bob'') (py ''secret2'')))
         (signup_username (UserSignup (py ''a@x.com'') (py ''bob'') (py ''secret2'')))) mem0 =
      (Inr (Some alice), mem0)"
    by code_simp
  from signup_conflict [OF 1 2 3, of demo_env] 1 2 3 show ?thesis
    by (simp add: mem_store_def)
qed

text \<open>
  The insert is not guarded. When a concurrent signup with the same email lands after
  the lookup found nobody, the unique index makes \<^verbatim>\<open>insert_one\<close> raise, and the exception
  leaves the handler as it is.
\<close>

theorem signup_insert_failure_counterexample:
  "mem_find_one (EmailOrUsername (py ''a@x.com'') (py ''al'')) mem_race = (Inr None, mem0) \<and>
   mem_insert_one
     \<lparr>email = py ''a@x.com'', username = py ''al'',
      hashed_password = demo_hash (py ''secret2''), created_at = 1000\<rparr> mem0 =
     (Inl duplicate_key, mem0) \<and>
   signup demo_env mem_store (UserSignup (py ''a@x.com'') (py ''al'') (py ''secret2'')) mem_race =
     (Inl (Unhandled duplicate_key), mem0) \<and>
   Unhandled duplicate_key \<noteq>
     HTTPException 400 (Some (py ''Email or username already registered'')) []"
  by code_simp

text \<open>
  Claim C1, amended. When a signup request passed both checks and the lookup found
  nobody, and \<^verbatim>\<open>insert_one\<close> then raises (a violated unique index included), the handler
  does not catch the exception: it propagates unchanged, no token is issued, and what
  the client observes is not the 400 of a detected duplicate.
\<close>

theorem signup_insert_failure:
  assumes "validate_email (signup_email user_data)"
    and "6 \<le> length (signup_password user_data)"
    and "find_one db (EmailOrUsername (signup_email user_data) (signup_username user_data)) s =
           (Inr None, s1)"
    and "insert_one db
           \<lparr>email = signup_email user_data, username = signup_username user_data,
            hashed_password = get_password_hash cfg (signup_password user_data),
            created_at = utcnow cfg\<rparr> s1 = (Inl e, s2)"
  shows "signup cfg db user_data s = (Inl (Unhandled e), s2)"
  using assms by (simp add: signup_def validate_password_ok)

theorem signup_insert_failure_witness:
  "validate_email (py ''a@x.com'') \<and> 6 \<le> length (py ''secret2'') \<and>
   signup demo_env mem_store (UserSignup (py ''a@x.com'') (py ''al'') (py ''secret2'')) mem_race =
     (Inl (Unhandled duplicate_key), mem0)"
proof -
  let ?r = "UserSignup (py ''a@x.com'') (py ''al'') (py ''secret2'')"
  have 1: "validate_email (signup_email ?r)" by code_simp
  have 2: "6 \<le> length (signup_password ?r)" by code_simp
  have 3: "find_one mem_store (EmailOrUsername (signup_email ?r) (signup_username ?r)) mem_race =
      (Inr None, mem0)"
    by code_simp
  have 4: "insert_one mem_store
      \<lparr>email = signup_email ?r, username = signup_username ?r,
       hashed_password = get_password_hash demo_env (signup_password ?r),
       created_at = utcnow demo_env\<rparr> mem0 = (Inl duplicate_key, mem0)"
    by code_simp
  from signup_insert_failure [OF 1 2 3 4] 1 2 show ?thesis by simp
qed

section \<open>Properties of \<^verbatim>\<open>login\<close>\<close>

text \<open>
  Claim C3. A login with an email that no stored user has, and a login with the email
  of a stored user and a password that does not verify, fail with the identical error:
  status 401, the detail "Incorrect email or password" and the same headers.
\<close>

theorem login_generic_error:
  assumes "find_one db (ByEmail e1) s = (Inr None, s1)"
    and "find_one db (ByEmail e2) s' = (Inr (Some u), s2)"
    and "\<not> verify_password cfg p2 (hashed_password u)"
  shows "fst (login cfg db (UserLogin e1 p1) s) =
           Inl (HTTPException 401 (Some (py ''Incorrect email or password''))
                  [(py ''WWW-Authenticate'', py ''Bearer'')]) \<and>
         fst (login cfg db (UserLogin e2 p2) s') = fst (login cfg db (UserLogin e1 p1) s)"
  using assms
  by (simp add: login_def authenticate_user_def and_then_def done_with_def)

theorem login_generic_error_witness:
  "fst (login demo_env mem_store (UserLogin (py ''nobody@x.com'') (py ''secret1'')) mem0) =
     Inl (HTTPException 401 (Some (py ''Incorrect email or password''))
            [(py ''WWW-Authenticate'', py ''Bearer'')]) \<and>
   fst (login demo_env mem_store (UserLogin (py ''a@x.com'') (py ''wrong'')) mem0) =
     fst (login demo_env mem_store (UserLogin (py ''nobody@x.com'') (py ''secret1'')) mem0)"
proof -
  have 1: "find_one mem_store (ByEmail (py ''nobody@x.com'')) mem0 = (Inr None, mem0)"
    by code_simp
  have 2: "find_one mem_store (ByEmail (py ''a@x.com'')) mem0 = (Inr (Some alice), mem0)"
    by code_simp
  have 3: "\<not> verify_password demo_env (py ''wrong'') (hashed_password alice)"
    by code_simp
  from login_generic_error [OF 1 2 3] show ?thesis .
qed

section \<open>Properties of \<^verbatim>\<open>init_db\<close>\<close>










section \<open>Properties of the Token Service\<close>

subsection \<open>The encoding can be decoded\<close>

lemma undecimal_snoc: "undecimal (ds @ [c]) = 10 * undecimal ds + (c - 48)"
  by (simp add: undecimal_def)

lemma undecimal_decimal: "undecimal (decimal n) = n"
proof (induction n rule: decimal.induct)
  case (1 n)
  show ?case
  proof (cases "n < 10")
    case True
    then have "decimal n = [48 + n]"
      by (subst decimal.simps) simp
    then show ?thesis by (simp add: undecimal_def)
  next
    case False
    then have "decimal n = decimal (n div 10) @ [48 + n mod 10]"
      by (subst decimal.simps) simp
    then have "undecimal (decimal n) = 10 * undecimal (decimal (n div 10)) + n mod 10"
      by (simp add: undecimal_snoc)
    with 1 False show ?thesis by simp
  qed
qed

lemma decimal_digits: "list_all digit (decimal n)"
proof (induction n rule: decimal.induct)
  case (1 n)
  show ?case
  proof (cases "n < 10")
    case True
    then have "decimal n = [48 + n]"
      by (subst decimal.simps) simp
    with True show ?thesis by (simp add: digit_def)
  next
    case False
    then have "decimal n = decimal (n div 10) @ [48 + n mod 10]"
      by (subst decimal.simps) simp
    moreover have "digit (48 + n mod 10)" by (simp add: digit_def)
    ultimately show ?thesis using 1 False by simp
  qed
qed

lemma decimal_not_Nil: "decimal n \<noteq> []"
  by (subst decimal.simps) simp


lemma takeWhile_digit_enc_str: "takeWhile digit (enc_str xs) = []"
  by (cases xs) (simp_all add: enc_str_def digit_def)

lemma dropWhile_digit_enc_str: "dropWhile digit (enc_str xs) = enc_str xs"
  by (cases xs) (simp_all add: enc_str_def digit_def)

lemma enc_str_Cons: "enc_str (x # xs) = 95 # decimal x @ enc_str xs"
  by (simp add: enc_str_def)

lemma decimal_set_digit: "c \<in> set (decimal n) \<Longrightarrow> digit c"
  using decimal_digits [of n] by (simp add: list_all_iff)

lemma dec_str_enc_str: "dec_str (enc_str xs) = Some xs"
proof (induction xs)
  case Nil
  show ?case by (simp add: enc_str_def)
next
  case (Cons x xs)
  have tw: "takeWhile digit (decimal x @ enc_str xs) = decimal x"
    by (simp add: takeWhile_append2 decimal_set_digit takeWhile_digit_enc_str)
  have dw: "dropWhile digit (decimal x @ enc_str xs) = enc_str xs"
    by (simp add: dropWhile_append2 decimal_set_digit dropWhile_digit_enc_str)
  show ?case
    by (simp add: enc_str_Cons tw dw decimal_not_Nil Cons.IH undecimal_decimal)
qed

lemma dec_int_enc_int: "dec_int (enc_int e) = Some e"
proof (cases "e < 0")
  case True
  then show ?thesis
    by (simp add: enc_int_def dec_int_def decimal_not_Nil decimal_digits undecimal_decimal)
next
  case False
  obtain c cs where d: "decimal (nat e) = c # cs"
    using decimal_not_Nil [of "nat e"] by (cases "decimal (nat e)") auto
  have "digit c" using decimal_set_digit [of c "nat e"] d by simp
  then have "c \<noteq> 45" by (auto simp: digit_def)
  moreover have "list_all digit (c # cs)" using decimal_digits [of "nat e"] d by simp
  moreover have "undecimal (c # cs) = nat e" using undecimal_decimal [of "nat e"] d by simp
  ultimately show ?thesis using False d
    by (simp add: enc_int_def dec_int_def)
qed

lemma enc_str_no_dot: "c \<in> set (enc_str xs) \<Longrightarrow> c \<noteq> 46"
  by (induction xs) (auto simp: enc_str_Cons enc_str_def digit_def dest: decimal_set_digit)

lemma enc_int_no_dot: "c \<in> set (enc_int e) \<Longrightarrow> c \<noteq> 46"
  by (auto simp: enc_int_def digit_def dest: decimal_set_digit split: if_splits)

lemma decode_token_encode_token: "decode_token (encode_token (c, sg)) = Some (c, sg)"
proof -
  let ?P = "\<lambda>c::nat. c \<noteq> 46"
  let ?r = "enc_int (expiry c) @ 46 # enc_str sg"
  have a: "takeWhile ?P (enc_str (subject c) @ 46 # ?r) = enc_str (subject c)"
    using enc_str_no_dot by (simp add: takeWhile_append2)
  have b: "dropWhile ?P (enc_str (subject c) @ 46 # ?r) = 46 # ?r"
    using enc_str_no_dot by (simp add: dropWhile_append2)
  have c: "takeWhile ?P ?r = enc_int (expiry c)"
    using enc_int_no_dot by (simp add: takeWhile_append2)
  have d: "dropWhile ?P ?r = 46 # enc_str sg"
    using enc_int_no_dot by (simp add: dropWhile_append2)
  show ?thesis
    by (simp add: encode_token_def decode_token_def a b c d dec_str_enc_str dec_int_enc_int)
qed

lemma enc_str_url_safe: "list_all url_safe (enc_str xs)"
  by (induction xs) (auto simp: enc_str_Cons enc_str_def url_safe_def list_all_iff dest: decimal_set_digit)

lemma enc_int_url_safe: "list_all url_safe (enc_int e)"
  by (auto simp: enc_int_def url_safe_def list_all_iff dest: decimal_set_digit)

lemma encode_token_url_safe: "list_all url_safe (encode_token (c, sg))"
  using enc_str_url_safe enc_int_url_safe by (simp add: encode_token_def url_safe_def)

subsection \<open>Issuing and verifying\<close>

text \<open>
  Claim C7. For every subject \<open>s\<close> and every ttl, a token issued at time \<open>now\<close> that is
  verified at a time before its expiry \<open>now + ttl\<close> is accepted, and the claims returned
  are those that were issued: their subject is \<open>s\<close>. This holds for every secret and
  every signing function.
\<close>

theorem verify_issue_roundtrip:
  assumes "now' < now + ttl"
  shows "verify svc now' (issue svc now s ttl) = Inr \<lparr>subject = s, expiry = now + ttl\<rparr> \<and>
    (\<exists>c. verify svc now' (issue svc now s ttl) = Inr c \<and> subject c = s)"
  using assms by (simp add: verify_def issue_def Let_def decode_token_encode_token)

theorem verify_issue_roundtrip_witness:
  "(2000::int) < 1000 + 1800 \<and>
   verify demo_env 2000 (issue demo_env 1000 (py ''a@x.com'') 1800) =
     Inr \<lparr>subject = py ''a@x.com'', expiry = 2800\<rparr>"
proof -
  have 1: "(2000::int) < 1000 + 1800" by simp
  from verify_issue_roundtrip [OF 1, of demo_env "py ''a@x.com''", THEN conjunct1] 1
  show ?thesis by simp
qed

text \<open>
  Claim C2. For every token string \<open>t\<close>, \<^verbatim>\<open>verify\<close> succeeds if and only if \<open>t\<close> decodes to
  claims and a signature such that the signature is the one recomputed from the secret
  and the expiry is in the future. It fails with \<open>Malformed\<close> when the token cannot be
  decoded, with \<open>BadSignature\<close> when the signature does not match, and with \<open>Expired\<close>
  when the signature matches and the expiry is before now, and also when the expiry is
  now. On success it returns the embedded claims.
\<close>

theorem verify_result:
  "((\<exists>c'. verify svc now t = Inr c') \<longleftrightarrow>
      (\<exists>c' sg'. decode_token t = Some (c', sg') \<and> sg' = sign svc (SECRET_KEY svc) c' \<and>
         now < expiry c')) \<and>
   (decode_token t = None \<longrightarrow> verify svc now t = Inl Malformed) \<and>
   (decode_token t = Some (c, sg) \<and> sg \<noteq> sign svc (SECRET_KEY svc) c \<longrightarrow>
      verify svc now t = Inl BadSignature) \<and>
   (decode_token t = Some (c, sg) \<and> sg = sign svc (SECRET_KEY svc) c \<and> expiry c < now \<longrightarrow>
      verify svc now t = Inl Expired) \<and>
   (decode_token t = Some (c, sg) \<and> sg = sign svc (SECRET_KEY svc) c \<and> expiry c = now \<longrightarrow>
      verify svc now t = Inl Expired) \<and>
   (decode_token t = Some (c, sg) \<and> sg = sign svc (SECRET_KEY svc) c \<and> now < expiry c \<longrightarrow>
      verify svc now t = Inr c) \<and>
   (verify svc now t = Inr c \<longrightarrow> (\<exists>sg'. decode_token t = Some (c, sg')))"
  by (auto simp add: verify_def split: option.splits if_splits)

theorem verify_result_witness:
  "verify demo_env 1000 (py ''garbage'') = Inl Malformed \<and>
   verify demo_env 1000 (encode_token (\<lparr>subject = py ''a'', expiry = 1100\<rparr>, [1])) =
     Inl BadSignature \<and>
   verify demo_env 1000 (issue demo_env 0 (py ''a'') 10) = Inl Expired \<and>
   verify demo_env 1000 (issue demo_env 1000 (py ''a'') 0) = Inl Expired \<and>
   verify demo_env 1000 (issue demo_env 900 (py ''a'') 200) =
     Inr \<lparr>subject = py ''a'', expiry = 1100\<rparr> \<and>
   decode_token (issue demo_env 900 (py ''a'') 200) =
     Some (\<lparr>subject = py ''a'', expiry = 1100\<rparr>,
           sign demo_env (SECRET_KEY demo_env) \<lparr>subject = py ''a'', expiry = 1100\<rparr>)"
proof -
  let ?sg = "\<lambda>e. sign demo_env (SECRET_KEY demo_env) \<lparr>subject = py ''a'', expiry = e\<rparr>"
  have h1: "decode_token (py ''garbage'') = None"
    by (simp add: decode_token_def py_def)
  have h2: "decode_token (encode_token (\<lparr>subject = py ''a'', expiry = 1100\<rparr>, [1])) =
        Some (\<lparr>subject = py ''a'', expiry = 1100\<rparr>, [1]) \<and>
      [1] \<noteq> ?sg 1100"
    by (simp add: decode_token_encode_token demo_env_def demo_sign_def py_def)
  have h3: "decode_token (issue demo_env 0 (py ''a'') 10) =
        Some (\<lparr>subject = py ''a'', expiry = 10\<rparr>, ?sg 10) \<and>
      ?sg 10 = ?sg 10 \<and> expiry \<lparr>subject = py ''a'', expiry = 10\<rparr> < 1000"
    by (simp add: issue_def Let_def decode_token_encode_token)
  have h4: "decode_token (issue demo_env 1000 (py ''a'') 0) =
        Some (\<lparr>subject = py ''a'', expiry = 1000\<rparr>, ?sg 1000) \<and>
      ?sg 1000 = ?sg 1000 \<and> expiry \<lparr>subject = py ''a'', expiry = 1000\<rparr> = 1000"
    by (simp add: issue_def Let_def decode_token_encode_token)
  have h5: "decode_token (issue demo_env 900 (py ''a'') 200) =
        Some (\<lparr>subject = py ''a'', expiry = 1100\<rparr>, ?sg 1100) \<and>
      ?sg 1100 = ?sg 1100 \<and> 1000 < expiry \<lparr>subject = py ''a'', expiry = 1100\<rparr>"
    by (simp add: issue_def Let_def decode_token_encode_token)
  have 1: "verify demo_env 1000 (py ''garbage'') = Inl Malformed"
    by (rule verify_result [THEN conjunct2, THEN conjunct1, THEN mp, OF h1])
  have 2: "verify demo_env 1000
      (encode_token (\<lparr>subject = py ''a'', expiry = 1100\<rparr>, [1])) = Inl BadSignature"
    by (rule verify_result [THEN conjunct2, THEN conjunct2, THEN conjunct1, THEN mp, OF h2])
  have 3: "verify demo_env 1000 (issue demo_env 0 (py ''a'') 10) = Inl Expired"
    by (rule verify_result
        [THEN conjunct2, THEN conjunct2, THEN conjunct2, THEN conjunct1, THEN mp, OF h3])
  have 4: "verify demo_env 1000 (issue demo_env 1000 (py ''a'') 0) = Inl Expired"
    by (rule verify_result
        [THEN conjunct2, THEN conjunct2, THEN conjunct2, THEN conjunct2, THEN conjunct1,
          THEN mp, OF h4])
  have 5: "verify demo_env 1000 (issue demo_env 900 (py ''a'') 200) =
      Inr \<lparr>subject = py ''a'', expiry = 1100\<rparr>"
    by (rule verify_result
        [THEN conjunct2, THEN conjunct2, THEN conjunct2, THEN conjunct2, THEN conjunct2,
          THEN conjunct1, THEN mp, OF h5])
  from verify_result
    [THEN conjunct2, THEN conjunct2, THEN conjunct2, THEN conjunct2, THEN conjunct2,
      THEN conjunct2, THEN mp, OF 5]
  obtain sg' where 6: "decode_token (issue demo_env 900 (py ''a'') 200) =
      Some (\<lparr>subject = py ''a'', expiry = 1100\<rparr>, sg')"
    by (elim exE)
  from 6 h5 have 7: "decode_token (issue demo_env 900 (py ''a'') 200) =
      Some (\<lparr>subject = py ''a'', expiry = 1100\<rparr>, ?sg 1100)"
    by simp
  from 1 2 3 4 5 7 show ?thesis by (intro conjI)
qed

section \<open>What the endpoints return\<close>

text \<open>
  Claim C6. The user object of every response is made of the identifier, the email,
  the username and the creation time, and of nothing else: \<^verbatim>\<open>me\<close> returns the same view
  whatever the stored password hash is; a successful login returns the view of the user
  that \<^verbatim>\<open>authenticate_user\<close> returned; a successful signup returns the identifier that
  \<^verbatim>\<open>insert_one\<close> returned for the new user, with the email and the username of the request
  and the creation time; and the access token is made from the email, whatever the
  hasher is.
\<close>

theorem responses_are_public_views:
  "get_current_user_info cfg (u\<lparr>hashed_password := h\<rparr>) = get_current_user_info cfg u \<and>
   get_current_user_info cfg u =
     UserResponse (doc_id u) (email u) (username u) (isoformat cfg (created_at u)) \<and>
   create_access_token (cfg\<lparr>get_password_hash := g, verify_password := v\<rparr>) sub d =
     create_access_token cfg sub d \<and>
   (login cfg db credentials s = (Inr resp, s') \<longrightarrow>
      (\<exists>user. authenticate_user cfg db (login_email credentials) (login_password credentials) s =
                (Inr (Some user), s') \<and>
              resp = TokenResponse
                       (create_access_token cfg (email user)
                          (timedelta_minutes (ACCESS_TOKEN_EXPIRE_MINUTES cfg)))
                       (py ''bearer'') (get_current_user_info cfg user))) \<and>
   (signup cfg db user_data t = (Inr resp', t') \<longrightarrow>
      (\<exists>ta inserted_id.
         find_one db (EmailOrUsername (signup_email user_data) (signup_username user_data)) t =
           (Inr None, ta) \<and>
         insert_one db
           \<lparr>email = signup_email user_data, username = signup_username user_data,
            hashed_password = get_password_hash cfg (signup_password user_data),
            created_at = utcnow cfg\<rparr> ta = (Inr inserted_id, t') \<and>
         resp' = TokenResponse
                   (create_access_token cfg (signup_email user_data)
                      (timedelta_minutes (ACCESS_TOKEN_EXPIRE_MINUTES cfg)))
                   (py ''bearer'')
                   (UserResponse inserted_id (signup_email user_data)
                      (signup_username user_data) (isoformat cfg (utcnow cfg)))))"
proof (intro conjI impI)
  show "get_current_user_info cfg (u\<lparr>hashed_password := h\<rparr>) = get_current_user_info cfg u"
    by (simp add: get_current_user_info_def)
  show "get_current_user_info cfg u =
      UserResponse (doc_id u) (email u) (username u) (isoformat cfg (created_at u))"
    by (simp add: get_current_user_info_def)
  show "create_access_token (cfg\<lparr>get_password_hash := g, verify_password := v\<rparr>) sub d =
      create_access_token cfg sub d"
    by (simp add: create_access_token_def issue_def)
next
  assume "login cfg db credentials s = (Inr resp, s')"
  then show "\<exists>user.
      authenticate_user cfg db (login_email credentials) (login_password credentials) s =
        (Inr (Some user), s') \<and>
      resp = TokenResponse
               (create_access_token cfg (email user)
                  (timedelta_minutes (ACCESS_TOKEN_EXPIRE_MINUTES cfg)))
               (py ''bearer'') (get_current_user_info cfg user)"
    by (auto simp add: login_def get_current_user_info_def
        split: prod.splits sum.splits option.splits)
next
  assume "signup cfg db user_data t = (Inr resp', t')"
  then show "\<exists>ta inserted_id.
      find_one db (EmailOrUsername (signup_email user_data) (signup_username user_data)) t =
        (Inr None, ta) \<and>
      insert_one db
        \<lparr>email = signup_email user_data, username = signup_username user_data,
         hashed_password = get_password_hash cfg (signup_password user_data),
         created_at = utcnow cfg\<rparr> ta = (Inr inserted_id, t') \<and>
      resp' = TokenResponse
                (create_access_token cfg (signup_email user_data)
                   (timedelta_minutes (ACCESS_TOKEN_EXPIRE_MINUTES cfg)))
                (py ''bearer'')
                (UserResponse inserted_id (signup_email user_data)
                   (signup_username user_data) (isoformat cfg (utcnow cfg)))"
    by (auto simp add: signup_def Let_def
        split: prod.splits sum.splits option.splits if_splits)
qed

theorem responses_are_public_views_witness:
  "login demo_env mem_store (UserLogin (py ''a@x.com'') (py ''secret1'')) mem0 =
     (Inr (TokenResponse (create_access_token demo_env (py ''a@x.com'') 1800) (py ''bearer'')
             (UserResponse (py ''a'') (py ''a@x.com'') (py ''alice'') [900])), mem0) \<and>
   UserResponse (py ''a'') (py ''a@x.com'') (py ''alice'') [900] =
     get_current_user_info demo_env alice \<and>
   fst (signup demo_env mem_store (UserSignup (py ''b@x.com'') (py ''bob'') (py ''secret2'')) mem0) =
     Inr (TokenResponse (create_access_token demo_env (py ''b@x.com'') 1800) (py ''bearer'')
            (UserResponse (py ''aa'') (py ''b@x.com'') (py ''bob'') [1000])) \<and>
   fst (insert_one mem_store
          \<lparr>email = py ''b@x.com'', username = py ''bob'',
           hashed_password = get_password_hash demo_env (py ''secret2''),
           created_at = utcnow demo_env\<rparr> mem0) = Inr (py ''aa'')"
proof -
  let ?bob = "UserSignup (py ''b@x.com'') (py ''bob'') (py ''secret2'')"
  let ?R = "TokenResponse (create_access_token demo_env (py ''a@x.com'') 1800) (py ''bearer'')
             (UserResponse (py ''a'') (py ''a@x.com'') (py ''alice'') [900])"
  let ?S = "TokenResponse
              (create_access_token demo_env (signup_email ?bob)
                 (timedelta_minutes (ACCESS_TOKEN_EXPIRE_MINUTES demo_env)))
              (py ''bearer'')
              (UserResponse (py ''aa'') (signup_email ?bob) (signup_username ?bob)
                 (isoformat demo_env (utcnow demo_env)))"
  let ?m = "\<lparr>mem_lost_after = None,
      mem_users = [alice,
        \<lparr>email = py ''b@x.com'', username = py ''bob'',
         hashed_password = demo_hash (py ''secret2''), created_at = 1000,
         doc_id = py ''aa''\<rparr>],
      mem_unique = [''username'', ''email''], mem_subjects = [], mem_racing = []\<rparr>"
  have a: "authenticate_user demo_env mem_store
      (login_email (UserLogin (py ''a@x.com'') (py ''secret1'')))
      (login_password (UserLogin (py ''a@x.com'') (py ''secret1''))) mem0 =
      (Inr (Some alice), mem0)"
    by code_simp
  have al: "email alice = py ''a@x.com'' \<and> username alice = py ''alice'' \<and>
      doc_id alice = py ''a'' \<and> isoformat demo_env (created_at alice) = [900]"
    by (simp add: alice_def demo_env_def)
  have l: "login demo_env mem_store (UserLogin (py ''a@x.com'') (py ''secret1'')) mem0 =
      (Inr ?R, mem0)"
    using a by (simp add: login_def al demo_env_ttl)
  have v: "validate_email (signup_email ?bob)" by code_simp
  have n: "6 \<le> length (signup_password ?bob)" by code_simp
  have f: "find_one mem_store
      (EmailOrUsername (signup_email ?bob) (signup_username ?bob)) mem0 = (Inr None, mem0)"
    by code_simp
  have i: "insert_one mem_store
      \<lparr>email = signup_email ?bob, username = signup_username ?bob,
       hashed_password = get_password_hash demo_env (signup_password ?bob),
       created_at = utcnow demo_env\<rparr> mem0 = (Inr (py ''aa''), ?m)"
    by code_simp
  have g: "signup demo_env mem_store ?bob mem0 = (Inr ?S, ?m)"
    by (rule signup_registered [OF v n f i])
  from responses_are_public_views
    [THEN conjunct2, THEN conjunct2, THEN conjunct2, THEN conjunct1, THEN mp, OF l]
  obtain user where u: "authenticate_user demo_env mem_store
      (login_email (UserLogin (py ''a@x.com'') (py ''secret1'')))
      (login_password (UserLogin (py ''a@x.com'') (py ''secret1''))) mem0 =
      (Inr (Some user), mem0)"
    and r: "?R = TokenResponse
        (create_access_token demo_env (email user)
           (timedelta_minutes (ACCESS_TOKEN_EXPIRE_MINUTES demo_env)))
        (py ''bearer'') (get_current_user_info demo_env user)"
    by (elim exE conjE)
  from u a have "user = alice" by simp
  with r have 2: "UserResponse (py ''a'') (py ''a@x.com'') (py ''alice'') [900] =
      get_current_user_info demo_env alice"
    by simp
  from responses_are_public_views
    [THEN conjunct2, THEN conjunct2, THEN conjunct2, THEN conjunct2, THEN mp, OF g]
  obtain ta inserted_id where fa: "find_one mem_store
        (EmailOrUsername (signup_email ?bob) (signup_username ?bob)) mem0 = (Inr None, ta)"
    and ia: "insert_one mem_store
        \<lparr>email = signup_email ?bob, username = signup_username ?bob,
         hashed_password = get_password_hash demo_env (signup_password ?bob),
         created_at = utcnow demo_env\<rparr> ta = (Inr inserted_id, ?m)"
    and ra: "?S = TokenResponse
        (create_access_token demo_env (signup_email ?bob)
           (timedelta_minutes (ACCESS_TOKEN_EXPIRE_MINUTES demo_env)))
        (py ''bearer'')
        (UserResponse inserted_id (signup_email ?bob) (signup_username ?bob)
           (isoformat demo_env (utcnow demo_env)))"
    by (elim exE conjE)
  from fa f have ta: "ta = mem0" by simp
  from ia have 4: "fst (insert_one mem_store
          \<lparr>email = py ''b@x.com'', username = py ''bob'',
           hashed_password = get_password_hash demo_env (py ''secret2''),
           created_at = utcnow demo_env\<rparr> mem0) = Inr inserted_id"
    by (simp add: ta)
  from ra have id: "inserted_id = py ''aa''" by simp
  have 3: "fst (signup demo_env mem_store ?bob mem0) =
      Inr (TokenResponse (create_access_token demo_env (py ''b@x.com'') 1800) (py ''bearer'')
            (UserResponse (py ''aa'') (py ''b@x.com'') (py ''bob'') [1000]))"
    by (simp only: g fst_conv demo_env_ttl demo_env_created UserSignup.sel)
  from l 2 3 4 id show ?thesis by simp
qed

end
